theory Spec2Isabelle
  imports Complex_Main "HOL-Library.Multiset"
begin

section \<open>DoseWise: the detection-to-adherence pipeline of \<open>src/App.jsx\<close>\<close>

text \<open>
  The component \<open>DoseWiseApp\<close> keeps its data in React state cells and in two
  \<open>localStorage\<close> keys. The embedding passes that state explicitly: every handler of the
  source is a function from the session it reads (the state cells of the render that
  created the handler, and \<open>localStorage\<close>) to the session its setter calls leave.
  What a handler reads from the host (\<open>new Date()\<close>, \<open>confirm\<close>,
  \<open>Notification.permission\<close>) is an argument of the model.
\<close>

subsection \<open>Data\<close>

text \<open>\<open>PILL_TYPES\<close> (lines 30-33) and the two slot names \<open>'morning'\<close> and \<open>'evening'\<close>.\<close>

definition PILL_MORNING :: string where
  "PILL_MORNING = ''pill_morning''"

definition PILL_EVENING :: string where
  "PILL_EVENING = ''pill_evening''"

datatype dose_type = Morning | Evening

text \<open>
  One dose slot of a day, \<open>{ scheduled, taken, pillType }\<close>. The field \<open>taken\<close> is
  \<open>null\<close> or a clock-time string.
\<close>

record dose_record =
  scheduled :: string
  taken :: "string option"
  pillType :: string

record day_log =
  date :: string
  morning :: dose_record
  evening :: dose_record

text \<open>
  JavaScript truthiness of a \<open>taken\<close> value, as tested by \<open>existingEntry[type].taken\<close>,
  \<open>day.morning?.taken || ...\<close> and \<open>!log.morning.taken\<close>: \<open>null\<close> and the empty string are
  falsy, every other string is truthy.
\<close>

fun truthy :: "string option \<Rightarrow> bool" where
  "truthy None = False"
| "truthy (Some t) = (t \<noteq> [])"

text \<open>\<open>entry[type]\<close> for \<open>type\<close> one of \<open>'morning'\<close>, \<open>'evening'\<close>.\<close>

fun slot :: "dose_type \<Rightarrow> day_log \<Rightarrow> dose_record" where
  "slot Morning d = morning d"
| "slot Evening d = evening d"

text \<open>\<open>entry[type].taken = takenTime\<close>.\<close>

fun set_taken :: "dose_type \<Rightarrow> string \<Rightarrow> day_log \<Rightarrow> day_log" where
  "set_taken Morning t d = d\<lparr>morning := (morning d)\<lparr>taken := Some t\<rparr>\<rparr>"
| "set_taken Evening t d = d\<lparr>evening := (evening d)\<lparr>taken := Some t\<rparr>\<rparr>"

subsection \<open>Schedule check: \<open>checkPillValidity\<close> (lines 190-205)\<close>

record validity =
  isValid :: bool
  vtype :: "dose_type option"

text \<open>The argument \<open>currentHour\<close> is \<open>new Date().getHours()\<close>.\<close>

definition checkPillValidity :: "nat \<Rightarrow> string \<Rightarrow> validity" where
  "checkPillValidity currentHour detectedPill =
     (let isMorningWindow = (currentHour \<ge> 7 \<and> currentHour \<le> 9);
          isEveningWindow = (currentHour \<ge> 19 \<and> currentHour \<le> 21)
      in if detectedPill = PILL_MORNING
           then \<lparr>isValid = isMorningWindow, vtype = Some Morning\<rparr>
         else if detectedPill = PILL_EVENING
           then \<lparr>isValid = isEveningWindow, vtype = Some Evening\<rparr>
         else \<lparr>isValid = False, vtype = None\<rparr>)"

subsection \<open>Streak: \<open>calculateStreak\<close> (lines 276-289)\<close>

text \<open>
  \<open>[...logs].sort((a, b) => new Date(b.date) - new Date(a.date))\<close>: a stable sort, most
  recent date first. The numeric value of \<open>new Date(s)\<close> is the host's; it is the
  parameter \<open>dv\<close> (the dates of a ledger are ISO dates, which all have one). \<open>sort_key\<close>
  is a stable insertion sort, ascending in its key, so the key is the negated date value.
\<close>

definition sortByDateDesc :: "(string \<Rightarrow> int) \<Rightarrow> day_log list \<Rightarrow> day_log list" where
  "sortByDateDesc dv logs = sort_key (\<lambda>d. - dv (date d)) logs"

text \<open>
  The \<open>for (let day of sorted)\<close> loop with its \<open>break\<close>; \<open>streak\<close> is the counter. A
  day log always has both slots, so the \<open>?.\<close> of \<open>day.morning?.taken\<close> reads the slot.
\<close>

fun streakLoop :: "nat \<Rightarrow> day_log list \<Rightarrow> nat" where
  "streakLoop streak [] = streak"
| "streakLoop streak (day # rest) =
     (if truthy (taken (morning day)) \<or> truthy (taken (evening day))
      then streakLoop (streak + 1) rest
      else streak)"

definition calculateStreak :: "(string \<Rightarrow> int) \<Rightarrow> day_log list \<Rightarrow> nat" where
  "calculateStreak dv logs = streakLoop 0 (sortByDateDesc dv logs)"

subsection \<open>Session state and effects\<close>

text \<open>
  The \<open>stats\<close> cell. On the demo path \<open>setStats(mockData)\<close> stores the whole mock
  object, which also carries the key \<open>adherenceLog\<close>; \<open>statsLog\<close> is that extra key
  (\<open>None\<close> when the object has only the three counters).
\<close>

record stats_view =
  currentStreak :: nat
  totalPillsTaken :: nat
  totalPillsScheduled :: nat
  statsLog :: "day_log list option"

datatype alert_kind = Info | Success | Warning

record alert_msg =
  kind :: alert_kind
  message :: string

text \<open>The JSON document under the key \<open>dosewise_data\<close>.\<close>

record persisted =
  p_adherenceLog :: "day_log list"
  p_currentStreak :: nat
  p_totalPillsTaken :: nat
  p_totalPillsScheduled :: nat

text \<open>
  What a handler does, in the order it does it: every call of a React setter and every
  call into the host leaves one event. The two timers are
  \<open>setTimeout(() => setAlert(prev => prev?.type === 'info' ? null : prev), 3000)\<close> and
  \<open>setTimeout(() => setAlert(null), 5000)\<close>; the model records that they were set, not
  their later firing. \<open>SendNotification\<close> is a call of \<open>sendNotification(type)\<close>,
  \<open>ShowNotification\<close> the \<open>new Notification(...)\<close> it makes when permitted.
\<close>

datatype timer_action = ClearInfoAlert | ClearAlert

datatype overlay = Cleared | Box bool string real

datatype effect =
    SetAlert alert_msg
  | SetAdherenceLog "day_log list"
  | SetStats stats_view
  | SetPrediction string real
  | SetIsDetecting bool
  | PlaySuccessSound
  | Persist persisted
  | SetTimeout timer_action nat
  | DrawOverlay overlay
  | SendNotification dose_type
  | ShowNotification string

record session =
  adherenceLog :: "day_log list"
  stats :: stats_view
  alert :: "alert_msg option"
  prediction :: "string \<times> real"
  isDetecting :: bool
  model :: bool
  video :: bool
  modelUrl :: string
  ls_data :: "persisted option"
  ls_model_url :: "string option"
  trace :: "effect list"

text \<open>
  The host at the moment of a call: \<open>today\<close> is
  \<open>new Date().toISOString().split('T')[0]\<close>, \<open>hours\<close> and \<open>minutes\<close> are \<open>getHours()\<close>
  and \<open>getMinutes()\<close>, \<open>takenTime\<close> is \<open>toLocaleTimeString([], {...})\<close>, \<open>dateValue\<close> the
  numeric value of \<open>new Date(s)\<close>, \<open>daysAgo i\<close> the ISO date of the day \<open>i\<close> days back
  (lines 79-81), \<open>permission\<close> whether \<open>Notification.permission === "granted"\<close>.
\<close>

record host =
  today :: string
  hours :: nat
  minutes :: nat
  takenTime :: string
  dateValue :: "string \<Rightarrow> int"
  daysAgo :: "nat \<Rightarrow> string"
  permission :: bool

definition emit :: "effect \<Rightarrow> session \<Rightarrow> session" where
  "emit e s = s\<lparr>trace := trace s @ [e]\<rparr>"

definition setAlert :: "alert_msg \<Rightarrow> session \<Rightarrow> session" where
  "setAlert a s = emit (SetAlert a) (s\<lparr>alert := Some a\<rparr>)"

text \<open>The effects a call added: the part of the trace after the old one.\<close>

definition emitted :: "session \<Rightarrow> session \<Rightarrow> effect list" where
  "emitted s s' = drop (length (trace s)) (trace s')"

subsection \<open>String helpers of the host\<close>

text \<open>\<open>label.replace(/_/g, ' ')\<close>.\<close>

definition replaceUnderscores :: "string \<Rightarrow> string" where
  "replaceUnderscores l = map (\<lambda>c. if c = CHR ''_'' then CHR '' '' else c) l"

text \<open>\<open>toLowerCase()\<close> on the ASCII letters; labels are ASCII class names.\<close>

definition lowerChar :: "char \<Rightarrow> char" where
  "lowerChar c =
     (if 65 \<le> (of_char c :: nat) \<and> (of_char c :: nat) \<le> 90
      then char_of ((of_char c :: nat) + 32) else c)"

definition toLowerCase :: "string \<Rightarrow> string" where
  "toLowerCase l = map lowerChar l"

text \<open>\<open>s.includes(sub)\<close>: \<open>sub\<close> occurs in \<open>s\<close> as a contiguous substring.\<close>

fun startsWith :: "string \<Rightarrow> string \<Rightarrow> bool" where
  "startsWith s [] = True"
| "startsWith [] (c # sub) = False"
| "startsWith (a # s) (c # sub) = (a = c \<and> startsWith s sub)"

fun includes_str :: "string \<Rightarrow> string \<Rightarrow> bool" where
  "includes_str [] sub = (sub = [])"
| "includes_str (a # s) sub = (startsWith (a # s) sub \<or> includes_str s sub)"

text \<open>\<open>findIndex\<close>; \<open>None\<close> is the source's \<open>-1\<close>.\<close>

fun findIndex :: "('a \<Rightarrow> bool) \<Rightarrow> 'a list \<Rightarrow> nat option" where
  "findIndex P [] = None"
| "findIndex P (x # xs) = (if P x then Some 0 else map_option Suc (findIndex P xs))"

subsection \<open>Recording a dose: \<open>processSuccess\<close> (lines 232-274)\<close>

text \<open>
  The source returns nothing; the model also returns which branch was taken, under the
  names the specification uses for the outcomes.
\<close>

datatype outcome = Accepted | AlreadyTaken | NotScheduled | Ignored

text \<open>The three alert objects of lines 212, 222 and 241, without their leading pictograph.\<close>

definition infoAlert :: "string \<Rightarrow> alert_msg" where
  "infoAlert label =
     \<lparr>kind = Info, message = ''Identification: '' @ replaceUnderscores label @ '' detected.''\<rparr>"

definition warningAlert :: "string \<Rightarrow> alert_msg" where
  "warningAlert label =
     \<lparr>kind = Warning, message = replaceUnderscores label @ '' is not scheduled for now.''\<rparr>"

definition successAlert :: "string \<Rightarrow> alert_msg" where
  "successAlert pillName =
     \<lparr>kind = Success, message = replaceUnderscores pillName @ '' Taken!''\<rparr>"

definition newDay :: "host \<Rightarrow> string \<Rightarrow> dose_type \<Rightarrow> day_log" where
  "newDay h pillName ty =
     \<lparr>date = today h,
      morning = \<lparr>scheduled = ''08:00'',
                 taken = (if ty = Morning then Some (takenTime h) else None),
                 pillType = pillName\<rparr>,
      evening = \<lparr>scheduled = ''20:00'',
                 taken = (if ty = Evening then Some (takenTime h) else None),
                 pillType = pillName\<rparr>\<rparr>"

text \<open>
  \<open>newLog = [...adherenceLog]\<close> copies the array, not the day objects, so
  \<open>newLog[dayIdx][type].taken = takenTime\<close> writes into the day object that every array
  holding it shares. The array under \<open>stats.adherenceLog\<close>, when present, is the mock array
  the ledger started from and holds the same objects at the same indices: the write
  shows there too (\<open>l[i := x]\<close> leaves \<open>l\<close> alone when \<open>i\<close> is past its end). In
  \<open>JSON.stringify({ adherenceLog: newLog, ...newStats })\<close> the spread comes second, so a
  key \<open>adherenceLog\<close> of \<open>newStats\<close> replaces \<open>newLog\<close> in the stored document.
\<close>

definition processSuccess :: "host \<Rightarrow> string \<Rightarrow> dose_type \<Rightarrow> session \<Rightarrow> outcome \<times> session" where
  "processSuccess h pillName ty s =
     (let existingEntry = find (\<lambda>log. date log = today h) (adherenceLog s) in
      if (case existingEntry of None \<Rightarrow> False | Some e \<Rightarrow> truthy (taken (slot ty e)))
      then (AlreadyTaken, s)
      else
        let s1 = emit PlaySuccessSound s;
            s2 = setAlert (successAlert pillName) s1;
            dayIdx = findIndex (\<lambda>l. date l = today h) (adherenceLog s);
            newLog = (case dayIdx of
                        Some i \<Rightarrow> (adherenceLog s)
                                    [i := set_taken ty (takenTime h) (adherenceLog s ! i)]
                      | None \<Rightarrow> adherenceLog s @ [newDay h pillName ty]);
            shared = (case dayIdx of
                        Some i \<Rightarrow> map_option
                                    (\<lambda>l. l[i := set_taken ty (takenTime h) (adherenceLog s ! i)])
                                    (statsLog (stats s))
                      | None \<Rightarrow> statsLog (stats s));
            newStats = (stats s)\<lparr>statsLog := shared,
                                 totalPillsTaken := totalPillsTaken (stats s) + 1,
                                 currentStreak := calculateStreak (dateValue h) newLog\<rparr>;
            doc = \<lparr>p_adherenceLog = (case statsLog newStats of Some l \<Rightarrow> l | None \<Rightarrow> newLog),
                   p_currentStreak = currentStreak newStats,
                   p_totalPillsTaken = totalPillsTaken newStats,
                   p_totalPillsScheduled = totalPillsScheduled newStats\<rparr>;
            s3 = emit (SetAdherenceLog newLog) (s2\<lparr>adherenceLog := newLog\<rparr>);
            s4 = emit (SetStats newStats) (s3\<lparr>stats := newStats\<rparr>);
            s5 = emit (Persist doc) (s4\<lparr>ls_data := Some doc\<rparr>)
        in (Accepted, emit (SetTimeout ClearAlert 5000) s5))"

subsection \<open>Handling a detection: \<open>handleDetection\<close> (lines 207-230)\<close>

text \<open>
  When \<open>isValid\<close> holds the type is never \<open>null\<close> (\<open>isValid_has_type\<close> below), so the
  \<open>None\<close> case under it is not reached.
\<close>

definition handleDetection :: "host \<Rightarrow> string \<Rightarrow> real \<Rightarrow> session \<Rightarrow> outcome \<times> session" where
  "handleDetection h label confidence s =
     (if label = ''no_pill'' \<or> label = ''multiple_pills'' \<or> label = ''Background Join''
      then (Ignored, s)
      else
        let s1 = setAlert (infoAlert label) s;
            v = checkPillValidity (hours h) label;
            r = (if isValid v
                 then (case vtype v of
                         Some ty \<Rightarrow> processSuccess h label ty s1
                       | None \<Rightarrow> (NotScheduled, s1))
                 else (NotScheduled,
                       if includes_str (toLowerCase label) ''pill''
                          \<or> includes_str (toLowerCase label) ''med''
                       then setAlert (warningAlert label) s1
                       else s1))
        in (fst r, emit (SetTimeout ClearInfoAlert 3000) (snd r)))"

subsection \<open>Detection gate: \<open>runPrediction\<close> (lines 146-169) and \<open>drawOverlay\<close>\<close>

text \<open>
  One entry of the classifier output. Probabilities are only compared, with each other
  and with the threshold; they are modelled as real numbers.
\<close>

record candidate =
  className :: string
  probability :: real

definition CONFIDENCE_THRESHOLD :: real where
  "CONFIDENCE_THRESHOLD = 0.75"

definition seedMatch :: candidate where
  "seedMatch = \<lparr>className = ''no_pill'', probability = 0\<rparr>"

text \<open>The \<open>forEach\<close> over the predictions, \<open>bestMatch\<close> being the running best.\<close>

fun bestLoop :: "candidate \<Rightarrow> candidate list \<Rightarrow> candidate" where
  "bestLoop bestMatch [] = bestMatch"
| "bestLoop bestMatch (p # ps) =
     bestLoop (if probability p > probability bestMatch then p else bestMatch) ps"

definition selectBest :: "candidate list \<Rightarrow> candidate" where
  "selectBest predictions = bestLoop seedMatch predictions"

definition drawOverlay :: "host \<Rightarrow> string \<Rightarrow> real \<Rightarrow> session \<Rightarrow> session" where
  "drawOverlay h label confidence s =
     (if label \<noteq> ''no_pill''
      then emit (DrawOverlay (Box (isValid (checkPillValidity (hours h) label)) label confidence)) s
      else emit (DrawOverlay Cleared) s)"

text \<open>
  \<open>predictions\<close> is what \<open>await model.predict(videoRef.current)\<close> returned; \<open>video\<close> and
  \<open>model\<close> say whether \<open>videoRef.current\<close> and \<open>model\<close> are set. The canvas of
  \<open>drawOverlay\<close> is part of every render, so its \<open>if (!canvas) return\<close> is not taken.
\<close>

definition runPrediction :: "host \<Rightarrow> candidate list \<Rightarrow> session \<Rightarrow> session" where
  "runPrediction h predictions s =
     (if \<not> video s \<or> \<not> model s then s
      else
        let bestMatch = selectBest predictions;
            label = className bestMatch;
            confidence = probability bestMatch;
            s1 = drawOverlay h label confidence s;
            s2 = emit (SetPrediction label confidence) (s1\<lparr>prediction := (label, confidence)\<rparr>)
        in if confidence > CONFIDENCE_THRESHOLD
           then snd (handleDetection h label confidence s2)
           else s2)"

subsection \<open>The sampling timer: \<open>startDetection\<close> (lines 130-139)\<close>

text \<open>
  \<open>detectionInterval.current = setInterval(runPrediction, DETECTION_FREQUENCY)\<close> hands
  the timer the function \<open>runPrediction\<close> of the render in which the button was pressed.
  In a function component \<open>adherenceLog\<close> and \<open>stats\<close> are constants of one render,
  and \<open>runPrediction\<close>, \<open>handleDetection\<close> and \<open>processSuccess\<close> close over them; the
  timer is registered once and keeps that function until \<open>stopDetection\<close>. (The
  reminder timer, lines 314-317, is registered again whenever \<open>adherenceLog\<close> changes;
  the two test buttons, lines 501-510, get the handler of the latest render.) So the
  callback returned here is \<open>runPrediction\<close> closed over the session \<open>s\<close> of the call:
  given the host and the classifier output of a tick, it yields the session that tick
  sets.
\<close>

definition startDetection ::
  "session \<Rightarrow> session \<times> (host \<Rightarrow> candidate list \<Rightarrow> session) option" where
  "startDetection s =
     (if \<not> model s
      then (setAlert \<lparr>kind = Warning,
                      message = ''Please provide a valid Model URL first''\<rparr> s, None)
      else if \<not> isDetecting s
      then (emit (SetIsDetecting True) (s\<lparr>isDetecting := True\<rparr>),
            Some (\<lambda>h predictions. runPrediction h predictions s))
      else (s, None))"

subsection \<open>Reminders: \<open>checkReminders\<close> and \<open>sendNotification\<close> (lines 319-343)\<close>

fun typeName :: "dose_type \<Rightarrow> string" where
  "typeName Morning = ''morning''"
| "typeName Evening = ''evening''"

definition reminderBody :: "dose_type \<Rightarrow> string" where
  "reminderBody ty = ''Reminder: Time to take your '' @ typeName ty @ '' medication''"

definition sendNotification :: "host \<Rightarrow> dose_type \<Rightarrow> session \<Rightarrow> session" where
  "sendNotification h ty s =
     (let s1 = emit (SendNotification ty) s in
      if permission h
      then emit (ShowNotification (reminderBody ty)) s1
      else s1)"

definition checkReminders :: "host \<Rightarrow> session \<Rightarrow> session" where
  "checkReminders h s =
     (let log = find (\<lambda>l. date l = today h) (adherenceLog s);
          isMorningReminderTime = (hours h = 8 \<and> minutes h = 15);
          isEveningReminderTime = (hours h = 20 \<and> minutes h = 15);
          s1 = (if isMorningReminderTime
                   \<and> (case log of None \<Rightarrow> True | Some l \<Rightarrow> \<not> truthy (taken (morning l)))
                then sendNotification h Morning s else s)
      in if isEveningReminderTime
            \<and> (case log of None \<Rightarrow> True | Some l \<Rightarrow> \<not> truthy (taken (evening l)))
         then sendNotification h Evening s1 else s1)"

subsection \<open>Start-up and reset: \<open>loadLocalData\<close>, \<open>generateMockAdherence\<close>, \<open>clearData\<close>\<close>

definition mockDay :: "host \<Rightarrow> nat \<Rightarrow> day_log" where
  "mockDay h i =
     \<lparr>date = daysAgo h i,
      morning = \<lparr>scheduled = ''08:00'',
                 taken = (if i mod 3 = 0 then None else Some ''08:15''),
                 pillType = PILL_MORNING\<rparr>,
      evening = \<lparr>scheduled = ''20:00'',
                 taken = (if i mod 4 = 0 then None else Some ''20:30''),
                 pillType = PILL_EVENING\<rparr>\<rparr>"

text \<open>The loop \<open>for (let i = 7; i >= 1; i--)\<close>, counting down from its argument.\<close>

fun mockFrom :: "host \<Rightarrow> nat \<Rightarrow> day_log list" where
  "mockFrom h 0 = []"
| "mockFrom h (Suc n) = mockDay h (Suc n) # mockFrom h n"

definition generateMockAdherence :: "host \<Rightarrow> day_log list" where
  "generateMockAdherence h = mockFrom h 7"

text \<open>
  \<open>parsed.adherenceLog || []\<close> and \<open>parsed.currentStreak || 0\<close> return the stored value
  when it is there (and \<open>0 || 0\<close> is \<open>0\<close>); the document the program stores always has the
  four keys.
\<close>

definition loadLocalData :: "host \<Rightarrow> session \<Rightarrow> session" where
  "loadLocalData h s =
     (case ls_data s of
        Some parsed \<Rightarrow>
          let st = \<lparr>currentStreak = p_currentStreak parsed,
                    totalPillsTaken = p_totalPillsTaken parsed,
                    totalPillsScheduled = p_totalPillsScheduled parsed,
                    statsLog = None\<rparr>;
              s1 = emit (SetAdherenceLog (p_adherenceLog parsed))
                     (s\<lparr>adherenceLog := p_adherenceLog parsed\<rparr>)
          in emit (SetStats st) (s1\<lparr>stats := st\<rparr>)
      | None \<Rightarrow>
          let mock = generateMockAdherence h;
              doc = \<lparr>p_adherenceLog = mock, p_currentStreak = 5,
                     p_totalPillsTaken = 47, p_totalPillsScheduled = 50\<rparr>;
              st = \<lparr>currentStreak = 5, totalPillsTaken = 47,
                    totalPillsScheduled = 50, statsLog = Some mock\<rparr>;
              s1 = emit (SetAdherenceLog mock) (s\<lparr>adherenceLog := mock\<rparr>);
              s2 = emit (SetStats st) (s1\<lparr>stats := st\<rparr>)
          in emit (Persist doc) (s2\<lparr>ls_data := Some doc\<rparr>))"

text \<open>
  The state of a freshly mounted component (the \<open>useState\<close> defaults, lines 5-27) over
  a given \<open>localStorage\<close>.
\<close>

definition initialSession :: "persisted option \<Rightarrow> string option \<Rightarrow> session" where
  "initialSession d u =
     \<lparr>adherenceLog = [],
      stats = \<lparr>currentStreak = 0, totalPillsTaken = 0, totalPillsScheduled = 0,
               statsLog = None\<rparr>,
      alert = None,
      prediction = (''no_pill'', 0),
      isDetecting = False,
      model = False,
      video = False,
      modelUrl = (case u of Some url \<Rightarrow> url | None \<Rightarrow> []),
      ls_data = d,
      ls_model_url = u,
      trace = []\<rparr>"

text \<open>
  \<open>initializeApp\<close> calls \<open>loadLocalData\<close> first; the camera and the classifier arrive
  later from the host and are not part of the start-up state.
\<close>

definition initializeApp :: "host \<Rightarrow> session \<Rightarrow> session" where
  "initializeApp h s = loadLocalData h s"

text \<open>\<open>window.location.reload()\<close>: a new component over the same \<open>localStorage\<close>.\<close>

definition reload :: "host \<Rightarrow> session \<Rightarrow> session" where
  "reload h s = initializeApp h (initialSession (ls_data s) (ls_model_url s))"

text \<open>\<open>localStorage.removeItem('dosewise_data')\<close>.\<close>

definition removeData :: "session \<Rightarrow> session" where
  "removeData s = s\<lparr>ls_data := None\<rparr>"

text \<open>\<open>confirmed\<close> is the answer to \<open>confirm(...)\<close>.\<close>

definition clearData :: "bool \<Rightarrow> host \<Rightarrow> session \<Rightarrow> session" where
  "clearData confirmed h s =
     (if confirmed then reload h (removeData s) else s)"

subsection \<open>Views used to state the properties\<close>

text \<open>
  The \<open>taken\<close> value of today's slot as the dashboard reads it (lines 347-350):
  \<open>adherenceLog.find(l => l.date === today) || { morning: { taken: null }, ... }\<close>.
\<close>

definition takenToday :: "host \<Rightarrow> dose_type \<Rightarrow> session \<Rightarrow> string option" where
  "takenToday h ty s =
     (case find (\<lambda>l. date l = today h) (adherenceLog s) of
        None \<Rightarrow> None
      | Some l \<Rightarrow> taken (slot ty l))"

text \<open>
  Every timestamp the program writes is a formatted clock time (\<open>"08:15"\<close>, \<open>"20:30"\<close>, the
  result of \<open>toLocaleTimeString\<close>), never the empty string. A ledger is well formed when
  it holds no empty-string timestamp; on such a ledger "has a timestamp" (not \<open>null\<close>) and
  the truthiness the source tests are the same thing.
\<close>

definition timestamps_wf :: "day_log list \<Rightarrow> bool" where
  "timestamps_wf logs =
     (\<forall>d \<in> set logs. taken (morning d) \<noteq> Some [] \<and> taken (evening d) \<noteq> Some [])"

text \<open>
  The streak in the words of the specification: sort by date, most recent first; a day
  counts when either slot has a timestamp that is not null; stop at the first day that
  does not count.
\<close>

definition has_dose :: "day_log \<Rightarrow> bool" where
  "has_dose d = (taken (morning d) \<noteq> None \<or> taken (evening d) \<noteq> None)"

definition spec_streak :: "(string \<Rightarrow> int) \<Rightarrow> day_log list \<Rightarrow> nat" where
  "spec_streak dv logs = length (takeWhile has_dose (sortByDateDesc dv logs))"

text \<open>The ledger \<open>newLog\<close> that an accepted dose leaves (lines 244-256).\<close>

definition acceptedLog :: "host \<Rightarrow> string \<Rightarrow> dose_type \<Rightarrow> day_log list \<Rightarrow> day_log list" where
  "acceptedLog h pillName ty logs =
     (case findIndex (\<lambda>l. date l = today h) logs of
        Some i \<Rightarrow> logs[i := set_taken ty (takenTime h) (logs ! i)]
      | None \<Rightarrow> logs @ [newDay h pillName ty])"

subsection \<open>A concrete host and ledger for the examples\<close>

text \<open>
  A date value for ISO dates \<open>yyyy-mm-dd\<close>: the number its digits spell. On such dates it
  orders as \<open>new Date(s)\<close> does.
\<close>

fun digitsLoop :: "int \<Rightarrow> string \<Rightarrow> int" where
  "digitsLoop acc [] = acc"
| "digitsLoop acc (c # cs) =
     (if 48 \<le> (of_char c :: nat) \<and> (of_char c :: nat) \<le> 57
      then digitsLoop (acc * 10 + int (of_char c - 48)) cs
      else digitsLoop acc cs)"

definition isoOrdinal :: "string \<Rightarrow> int" where
  "isoOrdinal s = digitsLoop 0 s"

definition digitChar :: "nat \<Rightarrow> char" where
  "digitChar n = ''0123456789'' ! (n mod 10)"

definition twoDigits :: "nat \<Rightarrow> string" where
  "twoDigits n = [digitChar (n div 10), digitChar n]"

text \<open>A host whose day is 2024-03-20, at a given hour and minute.\<close>

definition exHost :: "nat \<Rightarrow> nat \<Rightarrow> host" where
  "exHost hr mn =
     \<lparr>today = ''2024-03-20'', hours = hr, minutes = mn,
      takenTime = twoDigits hr @ '':'' @ twoDigits mn,
      dateValue = isoOrdinal,
      daysAgo = (\<lambda>i. ''2024-03-'' @ twoDigits (20 - i)),
      permission = True\<rparr>"

definition exDay :: "string \<Rightarrow> string option \<Rightarrow> string option \<Rightarrow> day_log" where
  "exDay dt m e =
     \<lparr>date = dt,
      morning = \<lparr>scheduled = ''08:00'', taken = m, pillType = PILL_MORNING\<rparr>,
      evening = \<lparr>scheduled = ''20:00'', taken = e, pillType = PILL_EVENING\<rparr>\<rparr>"

text \<open>A running session over a given ledger, camera and classifier ready.\<close>

definition exSession :: "day_log list \<Rightarrow> session" where
  "exSession logs =
     \<lparr>adherenceLog = logs,
      stats = \<lparr>currentStreak = 1, totalPillsTaken = 3, totalPillsScheduled = 0,
               statsLog = None\<rparr>,
      alert = None,
      prediction = (''no_pill'', 0),
      isDetecting = False,
      model = True,
      video = True,
      modelUrl = ''https://example.org/model/'',
      ls_data = Some \<lparr>p_adherenceLog = logs, p_currentStreak = 1,
                      p_totalPillsTaken = 3, p_totalPillsScheduled = 0\<rparr>,
      ls_model_url = Some ''https://example.org/model/'',
      trace = []\<rparr>"

section \<open>Properties\<close>

lemma pill_types_distinct: "PILL_MORNING \<noteq> PILL_EVENING"
  by (simp add: PILL_MORNING_def PILL_EVENING_def)

lemma isValid_has_type: "isValid (checkPillValidity h l) \<Longrightarrow> vtype (checkPillValidity h l) \<noteq> None"
  by (simp add: checkPillValidity_def Let_def split: if_splits)

text \<open>
  Claim C5. The schedule check is a function of the label and the hour alone. It answers
  valid with dose type Morning exactly for \<open>pill_morning\<close> at an hour in 7..9, valid with
  dose type Evening exactly for \<open>pill_evening\<close> at an hour in 19..21, and for every label
  other than these two (so also \<open>no_pill\<close> and \<open>multiple_pills\<close>) it answers invalid with
  no dose type, whatever the hour.
\<close>

theorem checkPillValidity_spec:
  "(isValid (checkPillValidity h l) \<and> vtype (checkPillValidity h l) = Some Morning
      \<longleftrightarrow> l = PILL_MORNING \<and> 7 \<le> h \<and> h \<le> 9)
   \<and> (isValid (checkPillValidity h l) \<and> vtype (checkPillValidity h l) = Some Evening
      \<longleftrightarrow> l = PILL_EVENING \<and> 19 \<le> h \<and> h \<le> 21)
   \<and> (l \<noteq> PILL_MORNING \<and> l \<noteq> PILL_EVENING
      \<longrightarrow> checkPillValidity h l = \<lparr>isValid = False, vtype = None\<rparr>)
   \<and> checkPillValidity h ''no_pill'' = \<lparr>isValid = False, vtype = None\<rparr>
   \<and> checkPillValidity h ''multiple_pills'' = \<lparr>isValid = False, vtype = None\<rparr>
   \<and> (isValid (checkPillValidity h l) \<longrightarrow> vtype (checkPillValidity h l) \<noteq> None)"
  using pill_types_distinct
  by (auto simp add: checkPillValidity_def Let_def PILL_MORNING_def PILL_EVENING_def)

theorem checkPillValidity_spec_witness:
  "isValid (checkPillValidity 8 ''pill_morning'')
   \<and> vtype (checkPillValidity 8 ''pill_morning'') = Some Morning
   \<and> \<not> isValid (checkPillValidity 12 ''pill_morning'')
   \<and> ''pill_afternoon'' \<noteq> PILL_MORNING \<and> ''pill_afternoon'' \<noteq> PILL_EVENING
   \<and> checkPillValidity 14 ''pill_afternoon'' = \<lparr>isValid = False, vtype = None\<rparr>"
  using checkPillValidity_spec [of 8 "''pill_morning''"]
        checkPillValidity_spec [of 12 "''pill_morning''"]
        checkPillValidity_spec [of 14 "''pill_afternoon''"]
  by (cases "vtype (checkPillValidity 12 ''pill_morning'')";
      cases "the (vtype (checkPillValidity 12 ''pill_morning''))")
     (simp_all add: PILL_MORNING_def PILL_EVENING_def)


lemma emit_fields [simp]:
  "adherenceLog (emit e s) = adherenceLog s"
  "stats (emit e s) = stats s"
  "alert (emit e s) = alert s"
  "prediction (emit e s) = prediction s"
  "ls_data (emit e s) = ls_data s"
  "ls_model_url (emit e s) = ls_model_url s"
  "isDetecting (emit e s) = isDetecting s"
  "model (emit e s) = model s"
  "video (emit e s) = video s"
  "trace (emit e s) = trace s @ [e]"
  by (simp_all add: emit_def)

lemma setAlert_fields [simp]:
  "adherenceLog (setAlert a s) = adherenceLog s"
  "stats (setAlert a s) = stats s"
  "alert (setAlert a s) = Some a"
  "prediction (setAlert a s) = prediction s"
  "ls_data (setAlert a s) = ls_data s"
  "ls_model_url (setAlert a s) = ls_model_url s"
  "isDetecting (setAlert a s) = isDetecting s"
  "model (setAlert a s) = model s"
  "video (setAlert a s) = video s"
  "trace (setAlert a s) = trace s @ [SetAlert a]"
  by (simp_all add: setAlert_def)

lemma takenToday_emit [simp]: "takenToday h ty (emit e s) = takenToday h ty s"
  by (simp add: takenToday_def)

lemma takenToday_setAlert [simp]: "takenToday h ty (setAlert a s) = takenToday h ty s"
  by (simp add: takenToday_def)

lemma emitted_append [simp]: "trace s' = trace s @ es \<Longrightarrow> emitted s s' = es"
  by (simp add: emitted_def)

lemma findIndex_None: "findIndex P xs = None \<longleftrightarrow> find P xs = None"
  by (induction xs) auto

lemma findIndex_Some:
  "findIndex P xs = Some i \<Longrightarrow> i < length xs \<and> find P xs = Some (xs ! i)"
  by (induction xs arbitrary: i) (auto split: if_splits)

lemma find_update:
  "findIndex P xs = Some i \<Longrightarrow> P y \<Longrightarrow> find P (xs[i := y]) = Some y"
  by (induction xs arbitrary: i) (auto split: if_splits)

lemma find_snoc:
  "find P xs = None \<Longrightarrow> P y \<Longrightarrow> find P (xs @ [y]) = Some y"
  by (induction xs) (auto split: if_splits)

lemma date_set_taken [simp]: "date (set_taken ty t d) = date d"
  by (cases ty) simp_all

lemma taken_set_taken_same [simp]: "taken (slot ty (set_taken ty t d)) = Some t"
  by (cases ty) simp_all

lemma taken_set_taken_other:
  "ty' \<noteq> ty \<Longrightarrow> slot ty' (set_taken ty t d) = slot ty' d"
  by (cases ty; cases ty') simp_all

lemma taken_newDay [simp]: "taken (slot ty (newDay h p ty)) = Some (takenTime h)"
  by (cases ty) (simp_all add: newDay_def)

lemma date_newDay [simp]: "date (newDay h p ty) = today h"
  by (simp add: newDay_def)

lemma find_acceptedLog:
  "\<exists>e. find (\<lambda>l. date l = today h) (acceptedLog h p ty logs) = Some e
       \<and> taken (slot ty e) = Some (takenTime h)"
proof (cases "findIndex (\<lambda>l. date l = today h) logs")
  case None
  then have "find (\<lambda>l. date l = today h) logs = None" by (simp add: findIndex_None)
  with None show ?thesis
    by (simp add: acceptedLog_def find_snoc)
next
  case (Some i)
  from findIndex_Some[OF Some] have "date (logs ! i) = today h"
    by (metis (mono_tags, lifting) find_Some_iff)
  with Some show ?thesis
    by (simp add: acceptedLog_def find_update)
qed

lemma processSuccess_already:
  "truthy (takenToday h ty s) \<Longrightarrow> processSuccess h p ty s = (AlreadyTaken, s)"
  by (auto simp: processSuccess_def takenToday_def Let_def split: option.splits)

lemma processSuccess_accept:
  assumes "\<not> truthy (takenToday h ty s)"
  shows "fst (processSuccess h p ty s) = Accepted"
    and "adherenceLog (snd (processSuccess h p ty s)) = acceptedLog h p ty (adherenceLog s)"
    and "totalPillsTaken (stats (snd (processSuccess h p ty s))) = totalPillsTaken (stats s) + 1"
    and "takenToday h ty (snd (processSuccess h p ty s)) = Some (takenTime h)"
proof -
  have c: "\<not> (case find (\<lambda>log. date log = today h) (adherenceLog s) of
               None \<Rightarrow> False | Some e \<Rightarrow> truthy (taken (slot ty e)))"
    using assms by (auto simp: takenToday_def split: option.splits)
  show "fst (processSuccess h p ty s) = Accepted"
    using c by (simp add: processSuccess_def Let_def)
  show l: "adherenceLog (snd (processSuccess h p ty s)) = acceptedLog h p ty (adherenceLog s)"
    using c by (simp add: processSuccess_def Let_def acceptedLog_def)
  show "totalPillsTaken (stats (snd (processSuccess h p ty s))) = totalPillsTaken (stats s) + 1"
    using c by (simp add: processSuccess_def Let_def)
  from find_acceptedLog[of h p ty "adherenceLog s"]
  show "takenToday h ty (snd (processSuccess h p ty s)) = Some (takenTime h)"
    unfolding takenToday_def l by auto
qed


lemma streakLoop_takeWhile:
  "streakLoop n xs = n + length (takeWhile (\<lambda>d. truthy (taken (morning d)) \<or> truthy (taken (evening d))) xs)"
  by (induction xs arbitrary: n) auto

lemma truthy_wf: "x \<noteq> Some [] \<Longrightarrow> truthy x \<longleftrightarrow> x \<noteq> None"
  by (cases x) auto

lemma set_sortByDateDesc: "set (sortByDateDesc dv logs) = set logs"
  by (simp add: sortByDateDesc_def)

lemma mset_sortByDateDesc: "mset (sortByDateDesc dv logs) = mset logs"
  by (simp add: sortByDateDesc_def)

lemma sorted_sortByDateDesc:
  "sorted (map (\<lambda>d. - dv (date d)) (sortByDateDesc dv logs))"
  by (simp add: sortByDateDesc_def)

lemma sortByDateDesc_sorted_id:
  "sorted (map (\<lambda>d. - dv (date d)) logs) \<Longrightarrow> sortByDateDesc dv logs = logs"
  unfolding sortByDateDesc_def by (rule sort_key_id_if_sorted)

lemma has_dose_truthy:
  "timestamps_wf logs \<Longrightarrow> d \<in> set logs \<Longrightarrow>
   (truthy (taken (morning d)) \<or> truthy (taken (evening d))) = has_dose d"
  unfolding timestamps_wf_def has_dose_def
  using truthy_wf[of "taken (morning d)"] truthy_wf[of "taken (evening d)"]
  by auto

lemma calculateStreak_takeWhile:
  assumes "timestamps_wf logs"
  shows "calculateStreak dv logs = spec_streak dv logs"
proof -
  have "takeWhile (\<lambda>d. truthy (taken (morning d)) \<or> truthy (taken (evening d))) (sortByDateDesc dv logs)
        = takeWhile has_dose (sortByDateDesc dv logs)"
    by (rule takeWhile_cong) (auto simp: set_sortByDateDesc has_dose_truthy[OF assms])
  then show ?thesis
    by (simp add: calculateStreak_def spec_streak_def streakLoop_takeWhile)
qed

text \<open>
  \<open>spec_streak\<close> is the length of the longest all-taken prefix: every day before it has a
  dose, and no longer prefix has a dose on every day.
\<close>

lemma spec_streak_prefix:
  "i < spec_streak dv logs \<Longrightarrow> has_dose (sortByDateDesc dv logs ! i)"
proof -
  assume a: "i < spec_streak dv logs"
  let ?xs = "sortByDateDesc dv logs"
  from a have l: "i < length (takeWhile has_dose ?xs)" by (simp add: spec_streak_def)
  then have "takeWhile has_dose ?xs ! i \<in> set (takeWhile has_dose ?xs)" by (rule nth_mem)
  then have "has_dose (takeWhile has_dose ?xs ! i)" by (rule set_takeWhileD[THEN conjunct2])
  moreover have "takeWhile has_dose ?xs ! i = ?xs ! i" using l by (rule takeWhile_nth)
  ultimately show ?thesis by simp
qed

lemma spec_streak_longest:
  assumes "n \<le> length logs" and "\<forall>i < n. has_dose (sortByDateDesc dv logs ! i)"
  shows "n \<le> spec_streak dv logs"
proof (rule ccontr)
  assume "\<not> n \<le> spec_streak dv logs"
  then have l: "length (takeWhile has_dose (sortByDateDesc dv logs)) < n"
    by (simp add: spec_streak_def)
  with assms(1) have "length (takeWhile has_dose (sortByDateDesc dv logs))
                        < length (sortByDateDesc dv logs)"
    by (simp add: sortByDateDesc_def)
  then have "\<not> has_dose (sortByDateDesc dv logs ! length (takeWhile has_dose (sortByDateDesc dv logs)))"
    by (rule nth_length_takeWhile)
  with assms(2) l show False by blast
qed

text \<open>
  Well-formedness holds of the empty ledger and is kept by every accepted dose whose
  clock-time string is not empty.
\<close>

lemma timestamps_wf_empty: "timestamps_wf []"
  by (simp add: timestamps_wf_def)

lemma timestamps_wf_accepted:
  assumes "takenTime h \<noteq> []" and "timestamps_wf logs"
  shows "timestamps_wf (acceptedLog h p ty logs)"
proof (cases "findIndex (\<lambda>l. date l = today h) logs")
  case None
  then show ?thesis
    using assms by (auto simp: acceptedLog_def timestamps_wf_def newDay_def)
next
  case (Some i)
  then have i: "i < length logs" by (simp add: findIndex_Some)
  then have m: "logs ! i \<in> set logs" by simp
  have "set (logs[i := set_taken ty (takenTime h) (logs ! i)])
          \<subseteq> insert (set_taken ty (takenTime h) (logs ! i)) (set logs)"
    by (rule set_update_subset_insert)
  moreover have "taken (morning (set_taken ty (takenTime h) (logs ! i))) \<noteq> Some []
               \<and> taken (evening (set_taken ty (takenTime h) (logs ! i))) \<noteq> Some []"
    using assms m by (cases ty) (auto simp: timestamps_wf_def)
  ultimately show ?thesis
    using assms(2) Some by (auto simp: acceptedLog_def timestamps_wf_def)
qed

text \<open>
  Claim C4. On a well-formed ledger the streak is the length of the longest prefix of the
  logs, sorted by date with the most recent first, in which every day has a slot (morning
  or evening) whose timestamp is not null. In particular, for three days given most
  recent first, taken, not taken, taken, the streak is 1.
\<close>

theorem calculateStreak_spec:
  "(timestamps_wf logs \<longrightarrow> calculateStreak dv logs = spec_streak dv logs)
   \<and> (timestamps_wf [d1, d2, d3]
        \<and> dv (date d3) \<le> dv (date d2) \<and> dv (date d2) \<le> dv (date d1)
        \<and> has_dose d1 \<and> \<not> has_dose d2 \<and> has_dose d3
      \<longrightarrow> calculateStreak dv [d1, d2, d3] = 1)"
proof (intro conjI impI)
  assume "timestamps_wf logs"
  then show "calculateStreak dv logs = spec_streak dv logs" by (rule calculateStreak_takeWhile)
next
  assume a: "timestamps_wf [d1, d2, d3]
        \<and> dv (date d3) \<le> dv (date d2) \<and> dv (date d2) \<le> dv (date d1)
        \<and> has_dose d1 \<and> \<not> has_dose d2 \<and> has_dose d3"
  then have "sortByDateDesc dv [d1, d2, d3] = [d1, d2, d3]"
    by (intro sortByDateDesc_sorted_id) simp
  with a show "calculateStreak dv [d1, d2, d3] = 1"
    by (simp add: calculateStreak_takeWhile spec_streak_def)
qed

theorem calculateStreak_spec_witness:
  "timestamps_wf [exDay ''2024-03-18'' (Some ''08:15'') None,
                  exDay ''2024-03-20'' None (Some ''20:30''),
                  exDay ''2024-03-19'' None None]
   \<and> spec_streak isoOrdinal [exDay ''2024-03-18'' (Some ''08:15'') None,
                  exDay ''2024-03-20'' None (Some ''20:30''),
                  exDay ''2024-03-19'' None None] = 1
   \<and> timestamps_wf [exDay ''2024-03-20'' None (Some ''20:30''),
                    exDay ''2024-03-19'' None None,
                    exDay ''2024-03-18'' (Some ''08:15'') None]
   \<and> isoOrdinal ''2024-03-18'' \<le> isoOrdinal ''2024-03-19''
   \<and> isoOrdinal ''2024-03-19'' \<le> isoOrdinal ''2024-03-20''
   \<and> has_dose (exDay ''2024-03-20'' None (Some ''20:30''))
   \<and> \<not> has_dose (exDay ''2024-03-19'' None None)
   \<and> has_dose (exDay ''2024-03-18'' (Some ''08:15'') None)
   \<and> calculateStreak isoOrdinal [exDay ''2024-03-20'' None (Some ''20:30''),
                    exDay ''2024-03-19'' None None,
                    exDay ''2024-03-18'' (Some ''08:15'') None] = 1"
proof -
  have w1: "timestamps_wf [exDay ''2024-03-18'' (Some ''08:15'') None,
                  exDay ''2024-03-20'' None (Some ''20:30''),
                  exDay ''2024-03-19'' None None]"
    by (simp add: timestamps_wf_def exDay_def)
  have w2: "timestamps_wf [exDay ''2024-03-20'' None (Some ''20:30''),
                    exDay ''2024-03-19'' None None,
                    exDay ''2024-03-18'' (Some ''08:15'') None]"
    by (simp add: timestamps_wf_def exDay_def)
  have o: "isoOrdinal ''2024-03-18'' \<le> isoOrdinal ''2024-03-19''"
          "isoOrdinal ''2024-03-19'' \<le> isoOrdinal ''2024-03-20''"
    by (simp_all add: isoOrdinal_def)
  have d: "has_dose (exDay ''2024-03-20'' None (Some ''20:30''))"
          "\<not> has_dose (exDay ''2024-03-19'' None None)"
          "has_dose (exDay ''2024-03-18'' (Some ''08:15'') None)"
    by (simp_all add: has_dose_def exDay_def)
  have c: "calculateStreak isoOrdinal
         [exDay ''2024-03-18'' (Some ''08:15'') None,
          exDay ''2024-03-20'' None (Some ''20:30''),
          exDay ''2024-03-19'' None None] = 1"
    by code_simp
  have o': "isoOrdinal (date (exDay ''2024-03-18'' (Some ''08:15'') None))
              \<le> isoOrdinal (date (exDay ''2024-03-19'' None None))"
           "isoOrdinal (date (exDay ''2024-03-19'' None None))
              \<le> isoOrdinal (date (exDay ''2024-03-20'' None (Some ''20:30'')))"
    using o by (simp_all add: exDay_def)
  have g: "calculateStreak isoOrdinal
         [exDay ''2024-03-18'' (Some ''08:15'') None,
          exDay ''2024-03-20'' None (Some ''20:30''),
          exDay ''2024-03-19'' None None]
       = spec_streak isoOrdinal
         [exDay ''2024-03-18'' (Some ''08:15'') None,
          exDay ''2024-03-20'' None (Some ''20:30''),
          exDay ''2024-03-19'' None None]"
    using calculateStreak_spec[of "[exDay ''2024-03-18'' (Some ''08:15'') None,
                  exDay ''2024-03-20'' None (Some ''20:30''),
                  exDay ''2024-03-19'' None None]" isoOrdinal] w1 by blast
  have s: "spec_streak isoOrdinal
         [exDay ''2024-03-18'' (Some ''08:15'') None,
          exDay ''2024-03-20'' None (Some ''20:30''),
          exDay ''2024-03-19'' None None] = 1"
    using g c by simp
  have p: "calculateStreak isoOrdinal [exDay ''2024-03-20'' None (Some ''20:30''),
                    exDay ''2024-03-19'' None None,
                    exDay ''2024-03-18'' (Some ''08:15'') None] = 1"
    using calculateStreak_spec[of _ isoOrdinal
          "exDay ''2024-03-20'' None (Some ''20:30'')"
          "exDay ''2024-03-19'' None None"
          "exDay ''2024-03-18'' (Some ''08:15'') None"] w2 o' d by blast
  show ?thesis using w1 s w2 o d p by blast
qed

lemma bestLoop_cases:
  "(bestLoop b ps = b \<and> (\<forall>q \<in> set ps. probability q \<le> probability b))
   \<or> (\<exists>pre post. ps = pre @ bestLoop b ps # post
        \<and> probability b < probability (bestLoop b ps)
        \<and> (\<forall>q \<in> set pre. probability q < probability (bestLoop b ps))
        \<and> (\<forall>q \<in> set post. probability q \<le> probability (bestLoop b ps)))"
proof (induction ps arbitrary: b)
  case Nil
  then show ?case by simp
next
  case (Cons p ps)
  show ?case
  proof (cases "probability p > probability b")
    case True
    from Cons.IH[of p] show ?thesis
    proof
      assume h: "bestLoop p ps = p \<and> (\<forall>q \<in> set ps. probability q \<le> probability p)"
      have "p # ps = [] @ bestLoop b (p # ps) # ps" using True h by simp
      moreover have "probability b < probability (bestLoop b (p # ps))" using True h by simp
      moreover have "\<forall>q \<in> set ps. probability q \<le> probability (bestLoop b (p # ps))"
        using True h by simp
      ultimately show ?thesis by (intro disjI2 exI[of _ "[]"] exI[of _ ps]) simp
    next
      assume "\<exists>pre post. ps = pre @ bestLoop p ps # post
        \<and> probability p < probability (bestLoop p ps)
        \<and> (\<forall>q \<in> set pre. probability q < probability (bestLoop p ps))
        \<and> (\<forall>q \<in> set post. probability q \<le> probability (bestLoop p ps))"
      then obtain pre post where h: "ps = pre @ bestLoop p ps # post"
        "probability p < probability (bestLoop p ps)"
        "\<forall>q \<in> set pre. probability q < probability (bestLoop p ps)"
        "\<forall>q \<in> set post. probability q \<le> probability (bestLoop p ps)" by blast
      have e: "bestLoop b (p # ps) = bestLoop p ps" using True by simp
      have "p # ps = (p # pre) @ bestLoop b (p # ps) # post" using h(1) e by simp
      moreover have "probability b < probability (bestLoop b (p # ps))" using True h(2) e by simp
      moreover have "\<forall>q \<in> set (p # pre). probability q < probability (bestLoop b (p # ps))"
        using h(2,3) e by simp
      moreover have "\<forall>q \<in> set post. probability q \<le> probability (bestLoop b (p # ps))"
        using h(4) e by simp
      ultimately show ?thesis by blast
    qed
  next
    case False
    then have e: "bestLoop b (p # ps) = bestLoop b ps" by simp
    from Cons.IH[of b] show ?thesis
    proof
      assume "bestLoop b ps = b \<and> (\<forall>q \<in> set ps. probability q \<le> probability b)"
      then show ?thesis using False e by auto
    next
      assume "\<exists>pre post. ps = pre @ bestLoop b ps # post
        \<and> probability b < probability (bestLoop b ps)
        \<and> (\<forall>q \<in> set pre. probability q < probability (bestLoop b ps))
        \<and> (\<forall>q \<in> set post. probability q \<le> probability (bestLoop b ps))"
      then obtain pre post where h: "ps = pre @ bestLoop b ps # post"
        "probability b < probability (bestLoop b ps)"
        "\<forall>q \<in> set pre. probability q < probability (bestLoop b ps)"
        "\<forall>q \<in> set post. probability q \<le> probability (bestLoop b ps)" by blast
      have "p # ps = (p # pre) @ bestLoop b (p # ps) # post" using h(1) e by simp
      moreover have "probability b < probability (bestLoop b (p # ps))" using h(2) e by simp
      moreover have "\<forall>q \<in> set (p # pre). probability q < probability (bestLoop b (p # ps))"
        using h(2,3) e False by auto
      moreover have "\<forall>q \<in> set post. probability q \<le> probability (bestLoop b (p # ps))"
        using h(4) e by simp
      ultimately show ?thesis by blast
    qed
  qed
qed

text \<open>
  Claim C7, as the code has it. The running best starts from the seed \<open>no_pill\<close> with
  probability 0 and is replaced only by a strictly greater probability. So when some
  candidate has a probability above 0, the selected pair is a candidate of the list,
  every candidate before it has a strictly smaller probability and none after it a
  greater one: the first of those with the highest probability. When no candidate has a
  probability above 0, the result is the seed, whether or not it is in the list.
\<close>

theorem selectBest_first_maximal:
  "((\<exists>q \<in> set ps. 0 < probability q) \<longrightarrow>
      (\<exists>pre post. ps = pre @ selectBest ps # post
         \<and> (\<forall>q \<in> set pre. probability q < probability (selectBest ps))
         \<and> (\<forall>q \<in> set post. probability q \<le> probability (selectBest ps))))
   \<and> ((\<forall>q \<in> set ps. probability q \<le> 0) \<longrightarrow> selectBest ps = seedMatch)"
proof -
  have s0: "probability seedMatch = 0" by (simp add: seedMatch_def)
  let ?r = "bestLoop seedMatch ps"
  from bestLoop_cases[of seedMatch ps] show ?thesis
  proof
    assume h: "?r = seedMatch \<and> (\<forall>q \<in> set ps. probability q \<le> probability seedMatch)"
    then have "\<not> (\<exists>q \<in> set ps. 0 < probability q)" by (auto simp: s0 not_less)
    with h show ?thesis by (simp add: selectBest_def)
  next
    assume "\<exists>pre post. ps = pre @ ?r # post
        \<and> probability seedMatch < probability ?r
        \<and> (\<forall>q \<in> set pre. probability q < probability ?r)
        \<and> (\<forall>q \<in> set post. probability q \<le> probability ?r)"
    then obtain pre post where h: "ps = pre @ ?r # post" "0 < probability ?r"
        "\<forall>q \<in> set pre. probability q < probability ?r"
        "\<forall>q \<in> set post. probability q \<le> probability ?r"
      unfolding s0 by blast
    from h(1) have "?r \<in> set ps" by (metis in_set_conv_decomp)
    with h(2) have "\<not> (\<forall>q \<in> set ps. probability q \<le> 0)" by (auto simp: not_le)
    with h show ?thesis unfolding selectBest_def by blast
  qed
qed

theorem selectBest_first_maximal_witness:
  "0 < probability \<lparr>className = ''pill_morning'', probability = 0.45\<rparr>
   \<and> selectBest [\<lparr>className = ''no_pill'', probability = 0.1\<rparr>,
                   \<lparr>className = ''pill_morning'', probability = 0.45\<rparr>,
                   \<lparr>className = ''pill_evening'', probability = 0.45\<rparr>]
       = \<lparr>className = ''pill_morning'', probability = 0.45\<rparr>
   \<and> probability \<lparr>className = ''pill_morning'', probability = 0\<rparr> \<le> 0
   \<and> selectBest [\<lparr>className = ''pill_morning'', probability = 0\<rparr>] = seedMatch"
  using selectBest_first_maximal [of "[\<lparr>className = ''no_pill'', probability = 0.1\<rparr>,
                   \<lparr>className = ''pill_morning'', probability = 0.45\<rparr>,
                   \<lparr>className = ''pill_evening'', probability = 0.45\<rparr>]"]
        selectBest_first_maximal [of "[\<lparr>className = ''pill_morning'', probability = 0\<rparr>]"]
  by (simp add: selectBest_def seedMatch_def)

theorem selectBest_counterexample:
  "[\<lparr>className = ''pill_morning'', probability = 0\<rparr>] \<noteq> []
   \<and> selectBest [\<lparr>className = ''pill_morning'', probability = 0\<rparr>]
       = \<lparr>className = ''no_pill'', probability = 0\<rparr>
   \<and> selectBest [\<lparr>className = ''pill_morning'', probability = 0\<rparr>]
       \<notin> set [\<lparr>className = ''pill_morning'', probability = 0\<rparr>]"
  by (simp add: selectBest_def seedMatch_def)

lemma alert_kinds_distinct [simp]:
  "infoAlert l \<noteq> warningAlert l'" "warningAlert l \<noteq> infoAlert l'"
  "infoAlert l \<noteq> successAlert l'" "successAlert l \<noteq> infoAlert l'"
  by (simp_all add: infoAlert_def warningAlert_def successAlert_def)

lemma kind_alerts [simp]:
  "kind (infoAlert l) = Info" "kind (warningAlert l) = Warning" "kind (successAlert l) = Success"
  by (simp_all add: infoAlert_def warningAlert_def successAlert_def)

lemma handleDetection_invalid:
  assumes "label \<noteq> ''no_pill''" "label \<noteq> ''multiple_pills''" "label \<noteq> ''Background Join''"
      and "\<not> isValid (checkPillValidity (hours h) label)"
  shows "handleDetection h label c s =
           (NotScheduled,
            emit (SetTimeout ClearInfoAlert 3000)
              (if includes_str (toLowerCase label) ''pill'' \<or> includes_str (toLowerCase label) ''med''
               then setAlert (warningAlert label) (setAlert (infoAlert label) s)
               else setAlert (infoAlert label) s))"
  using assms by (simp add: handleDetection_def Let_def)

lemma handleDetection_valid:
  assumes "isValid (checkPillValidity (hours h) label)"
      and "vtype (checkPillValidity (hours h) label) = Some ty"
  shows "handleDetection h label c s =
           (fst (processSuccess h label ty (setAlert (infoAlert label) s)),
            emit (SetTimeout ClearInfoAlert 3000)
              (snd (processSuccess h label ty (setAlert (infoAlert label) s))))"
proof -
  have "label = PILL_MORNING \<or> label = PILL_EVENING"
    using assms(1) by (simp add: checkPillValidity_def Let_def split: if_splits)
  then have "label \<noteq> ''no_pill''" "label \<noteq> ''multiple_pills''" "label \<noteq> ''Background Join''"
    by (auto simp: PILL_MORNING_def PILL_EVENING_def)
  then show ?thesis using assms by (simp add: handleDetection_def Let_def)
qed

text \<open>
  Claim C9. For a label that is not one of the ignored ones and whose schedule check is
  invalid, whatever the confidence (so also above the threshold): the outcome is
  NotScheduled, the ledger, the stats and the stored document are as before and no
  setter of them is called; the alert left is the Warning exactly when the lower-cased
  label contains \<open>pill\<close> or \<open>med\<close>, and the Info otherwise.
\<close>

theorem handleDetection_not_scheduled:
  assumes "label \<noteq> ''no_pill''" "label \<noteq> ''multiple_pills''" "label \<noteq> ''Background Join''"
      and "\<not> isValid (checkPillValidity (hours h) label)"
  shows "fst (handleDetection h label c s) = NotScheduled
       \<and> adherenceLog (snd (handleDetection h label c s)) = adherenceLog s
       \<and> stats (snd (handleDetection h label c s)) = stats s
       \<and> ls_data (snd (handleDetection h label c s)) = ls_data s
       \<and> (\<forall>d. Persist d \<notin> set (emitted s (snd (handleDetection h label c s))))
       \<and> (\<forall>l. SetAdherenceLog l \<notin> set (emitted s (snd (handleDetection h label c s))))
       \<and> (\<forall>st. SetStats st \<notin> set (emitted s (snd (handleDetection h label c s))))
       \<and> (alert (snd (handleDetection h label c s)) = Some (warningAlert label)
            \<longleftrightarrow> includes_str (toLowerCase label) ''pill'' \<or> includes_str (toLowerCase label) ''med'')
       \<and> (alert (snd (handleDetection h label c s)) = Some (infoAlert label)
            \<longleftrightarrow> \<not> (includes_str (toLowerCase label) ''pill'' \<or> includes_str (toLowerCase label) ''med''))
       \<and> (SetAlert (warningAlert label) \<in> set (emitted s (snd (handleDetection h label c s)))
            \<longleftrightarrow> includes_str (toLowerCase label) ''pill'' \<or> includes_str (toLowerCase label) ''med'')"
  unfolding handleDetection_invalid[OF assms]
  by (simp add: emitted_def)

lemma startsWith_iff: "startsWith s sub \<longleftrightarrow> (\<exists>post. s = sub @ post)"
  by (induction s sub rule: startsWith.induct) auto

lemma includes_str_iff: "includes_str s sub \<longleftrightarrow> (\<exists>pre post. s = pre @ sub @ post)"
proof (induction s)
  case Nil
  then show ?case by simp
next
  case (Cons a s)
  show ?case
  proof
    assume "includes_str (a # s) sub"
    then consider "startsWith (a # s) sub" | "includes_str s sub" by auto
    then show "\<exists>pre post. a # s = pre @ sub @ post"
    proof cases
      case 1
      then obtain post where "a # s = sub @ post" by (auto simp: startsWith_iff)
      then have "a # s = [] @ sub @ post" by simp
      then show ?thesis by blast
    next
      case 2
      then obtain pre post where "s = pre @ sub @ post" using Cons.IH by blast
      then have "a # s = (a # pre) @ sub @ post" by simp
      then show ?thesis by blast
    qed
  next
    assume "\<exists>pre post. a # s = pre @ sub @ post"
    then obtain pre post where e: "a # s = pre @ sub @ post" by blast
    show "includes_str (a # s) sub"
    proof (cases pre)
      case Nil
      with e have "startsWith (a # s) sub" by (auto simp: startsWith_iff)
      then show ?thesis by simp
    next
      case (Cons b pre')
      with e have "s = pre' @ sub @ post" by simp
      then have "includes_str s sub" using Cons.IH by blast
      then show ?thesis by simp
    qed
  qed
qed

theorem handleDetection_not_scheduled_witness:
  "''pill_evening'' \<noteq> ''no_pill'' \<and> ''pill_evening'' \<noteq> ''multiple_pills''
   \<and> ''pill_evening'' \<noteq> ''Background Join''
   \<and> \<not> isValid (checkPillValidity (hours (exHost 14 0)) ''pill_evening'')
   \<and> fst (handleDetection (exHost 14 0) ''pill_evening'' 0.9 (exSession [])) = NotScheduled
   \<and> adherenceLog (snd (handleDetection (exHost 14 0) ''pill_evening'' 0.9 (exSession []))) = []
   \<and> alert (snd (handleDetection (exHost 14 0) ''pill_evening'' 0.9 (exSession [])))
       = Some (warningAlert ''pill_evening'')
   \<and> ''vitamin_c'' \<noteq> ''no_pill'' \<and> ''vitamin_c'' \<noteq> ''multiple_pills''
   \<and> ''vitamin_c'' \<noteq> ''Background Join''
   \<and> \<not> isValid (checkPillValidity (hours (exHost 14 0)) ''vitamin_c'')
   \<and> alert (snd (handleDetection (exHost 14 0) ''vitamin_c'' 0.9 (exSession [])))
       = Some (infoAlert ''vitamin_c'')"
proof -
  have v: "\<not> isValid (checkPillValidity (hours (exHost 14 0)) ''pill_evening'')"
          "\<not> isValid (checkPillValidity (hours (exHost 14 0)) ''vitamin_c'')"
    by (simp_all add: checkPillValidity_def exHost_def PILL_MORNING_def PILL_EVENING_def)
  have i: "includes_str (toLowerCase ''pill_evening'') ''pill''"
          "\<not> includes_str (toLowerCase ''vitamin_c'') ''pill''"
          "\<not> includes_str (toLowerCase ''vitamin_c'') ''med''"
    by (simp_all add: toLowerCase_def lowerChar_def)
  have l: "adherenceLog (exSession []) = []" by (simp add: exSession_def)
  from handleDetection_not_scheduled[of "''pill_evening''" "exHost 14 0" "0.9" "exSession []"]
       handleDetection_not_scheduled[of "''vitamin_c''" "exHost 14 0" "0.9" "exSession []"]
  show ?thesis using v i l by simp
qed

lemma already_taken_in_window:
  assumes "isValid (checkPillValidity (hours h) label)"
      and "vtype (checkPillValidity (hours h) label) = Some ty"
      and "truthy (takenToday h ty s)"
  shows "handleDetection h label c s
        = (AlreadyTaken, emit (SetTimeout ClearInfoAlert 3000) (setAlert (infoAlert label) s))"
proof -
  have "processSuccess h label ty (setAlert (infoAlert label) s)
              = (AlreadyTaken, setAlert (infoAlert label) s)"
    using assms(3) by (simp add: processSuccess_already)
  then show ?thesis
    using assms(1,2) by (simp add: handleDetection_valid[of h label ty])
qed

lemma tagged_label_outside_window:
  assumes "label = PILL_MORNING \<or> label = PILL_EVENING"
      and "\<not> isValid (checkPillValidity (hours h) label)"
  shows "handleDetection h label c s
        = (NotScheduled, emit (SetTimeout ClearInfoAlert 3000)
             (setAlert (warningAlert label) (setAlert (infoAlert label) s)))"
proof -
  have n: "label \<noteq> ''no_pill''" "label \<noteq> ''multiple_pills''" "label \<noteq> ''Background Join''"
    using assms(1) by (auto simp: PILL_MORNING_def PILL_EVENING_def)
  have i: "includes_str (toLowerCase label) ''pill''"
    using assms(1) by (auto simp: PILL_MORNING_def PILL_EVENING_def toLowerCase_def lowerChar_def)
  show ?thesis
    unfolding handleDetection_invalid[OF n assms(2)] using i by simp
qed

text \<open>
  Claim C6, as the code has it. The schedule check comes before the look at the slot.
  Inside the acceptance window a label whose slot already has a timestamp today gives
  AlreadyTaken: the Info alert and its timer are the only events, and the ledger, the
  stats and the stored document are as before. Outside the window a dose-type label gives
  NotScheduled and the Warning replaces the Info, whether or not the slot has a
  timestamp.
\<close>

theorem handleDetection_already_taken:
  "(isValid (checkPillValidity (hours h) label)
      \<and> vtype (checkPillValidity (hours h) label) = Some ty
      \<and> truthy (takenToday h ty s)
    \<longrightarrow> fst (handleDetection h label c s) = AlreadyTaken
      \<and> alert (snd (handleDetection h label c s)) = Some (infoAlert label)
      \<and> emitted s (snd (handleDetection h label c s))
          = [SetAlert (infoAlert label), SetTimeout ClearInfoAlert 3000]
      \<and> adherenceLog (snd (handleDetection h label c s)) = adherenceLog s
      \<and> stats (snd (handleDetection h label c s)) = stats s
      \<and> ls_data (snd (handleDetection h label c s)) = ls_data s)
   \<and> ((label = PILL_MORNING \<or> label = PILL_EVENING)
      \<and> \<not> isValid (checkPillValidity (hours h) label)
    \<longrightarrow> fst (handleDetection h label c s) = NotScheduled
      \<and> alert (snd (handleDetection h label c s)) = Some (warningAlert label)
      \<and> emitted s (snd (handleDetection h label c s))
          = [SetAlert (infoAlert label), SetAlert (warningAlert label),
             SetTimeout ClearInfoAlert 3000]
      \<and> adherenceLog (snd (handleDetection h label c s)) = adherenceLog s
      \<and> stats (snd (handleDetection h label c s)) = stats s)"
  by (simp add: already_taken_in_window tagged_label_outside_window emitted_def)

theorem handleDetection_already_taken_witness:
  "isValid (checkPillValidity (hours (exHost 8 30)) ''pill_morning'')
   \<and> vtype (checkPillValidity (hours (exHost 8 30)) ''pill_morning'') = Some Morning
   \<and> truthy (takenToday (exHost 8 30) Morning
         (exSession [exDay ''2024-03-20'' (Some ''08:05'') None]))
   \<and> fst (handleDetection (exHost 8 30) ''pill_morning'' 0.9
            (exSession [exDay ''2024-03-20'' (Some ''08:05'') None])) = AlreadyTaken
   \<and> alert (snd (handleDetection (exHost 8 30) ''pill_morning'' 0.9
            (exSession [exDay ''2024-03-20'' (Some ''08:05'') None])))
       = Some (infoAlert ''pill_morning'')
   \<and> (''pill_morning'' = PILL_MORNING \<or> ''pill_morning'' = PILL_EVENING)
   \<and> \<not> isValid (checkPillValidity (hours (exHost 12 0)) ''pill_morning'')
   \<and> alert (snd (handleDetection (exHost 12 0) ''pill_morning'' 0.9
            (exSession [exDay ''2024-03-20'' (Some ''08:05'') None])))
       = Some (warningAlert ''pill_morning'')"
proof -
  have v: "isValid (checkPillValidity (hours (exHost 8 30)) ''pill_morning'')"
          "vtype (checkPillValidity (hours (exHost 8 30)) ''pill_morning'') = Some Morning"
          "\<not> isValid (checkPillValidity (hours (exHost 12 0)) ''pill_morning'')"
    by (simp_all add: checkPillValidity_def exHost_def PILL_MORNING_def)
  have t: "truthy (takenToday (exHost 8 30) Morning
         (exSession [exDay ''2024-03-20'' (Some ''08:05'') None]))"
    by (simp add: takenToday_def exHost_def exSession_def exDay_def)
  have l: "''pill_morning'' = PILL_MORNING \<or> ''pill_morning'' = PILL_EVENING"
    by (simp add: PILL_MORNING_def)
  from handleDetection_already_taken[of "exHost 8 30" "''pill_morning''" Morning
         "exSession [exDay ''2024-03-20'' (Some ''08:05'') None]" "0.9"]
       handleDetection_already_taken[of "exHost 12 0" "''pill_morning''" Morning
         "exSession [exDay ''2024-03-20'' (Some ''08:05'') None]" "0.9"]
  show ?thesis using v t l by blast
qed

theorem handleDetection_already_taken_counterexample:
  "truthy (takenToday (exHost 12 0) Morning (exSession [exDay ''2024-03-20'' (Some ''08:05'') None]))
   \<and> fst (handleDetection (exHost 12 0) ''pill_morning'' 0.9
            (exSession [exDay ''2024-03-20'' (Some ''08:05'') None])) = NotScheduled
   \<and> fst (handleDetection (exHost 12 0) ''pill_morning'' 0.9
            (exSession [exDay ''2024-03-20'' (Some ''08:05'') None])) \<noteq> AlreadyTaken
   \<and> alert (snd (handleDetection (exHost 12 0) ''pill_morning'' 0.9
            (exSession [exDay ''2024-03-20'' (Some ''08:05'') None])))
       = Some \<lparr>kind = Warning, message = ''pill morning is not scheduled for now.''\<rparr>"
  by (simp add: handleDetection_def Let_def checkPillValidity_def exHost_def exSession_def
        exDay_def takenToday_def PILL_MORNING_def PILL_EVENING_def toLowerCase_def lowerChar_def
        warningAlert_def infoAlert_def replaceUnderscores_def setAlert_def emit_def)

text \<open>
  Claim C2. When the confidence of the selected detection is at most 0.75, the tick
  leaves the ledger, the stats, the alert and the stored document as they were, and
  calls neither \<open>setAdherenceLog\<close> nor \<open>setStats\<close> nor \<open>localStorage.setItem\<close>.
\<close>

theorem runPrediction_below_threshold:
  assumes "probability (selectBest predictions) \<le> 0.75"
  shows "adherenceLog (runPrediction h predictions s) = adherenceLog s
       \<and> stats (runPrediction h predictions s) = stats s
       \<and> ls_data (runPrediction h predictions s) = ls_data s
       \<and> alert (runPrediction h predictions s) = alert s
       \<and> (\<forall>d. Persist d \<notin> set (emitted s (runPrediction h predictions s)))
       \<and> (\<forall>l. SetAdherenceLog l \<notin> set (emitted s (runPrediction h predictions s)))
       \<and> (\<forall>st. SetStats st \<notin> set (emitted s (runPrediction h predictions s)))"
  using assms
  by (auto simp: runPrediction_def Let_def CONFIDENCE_THRESHOLD_def drawOverlay_def emitted_def)

theorem runPrediction_below_threshold_witness:
  "probability (selectBest [\<lparr>className = ''pill_morning'', probability = 0.75\<rparr>,
                            \<lparr>className = ''no_pill'', probability = 0.25\<rparr>]) \<le> 0.75
   \<and> adherenceLog (runPrediction (exHost 8 0)
         [\<lparr>className = ''pill_morning'', probability = 0.75\<rparr>,
          \<lparr>className = ''no_pill'', probability = 0.25\<rparr>] (exSession [])) = []
   \<and> stats (runPrediction (exHost 8 0)
         [\<lparr>className = ''pill_morning'', probability = 0.75\<rparr>,
          \<lparr>className = ''no_pill'', probability = 0.25\<rparr>] (exSession []))
       = stats (exSession [])"
proof -
  have p: "probability (selectBest [\<lparr>className = ''pill_morning'', probability = 0.75\<rparr>,
                            \<lparr>className = ''no_pill'', probability = 0.25\<rparr>]) \<le> 0.75"
    by (simp add: selectBest_def seedMatch_def)
  have l: "adherenceLog (exSession []) = []" by (simp add: exSession_def)
  from runPrediction_below_threshold[OF p, of "exHost 8 0" "exSession []"]
  show ?thesis using p l by simp
qed

lemma find_in_set: "find P xs = Some x \<Longrightarrow> x \<in> set xs"
  by (induction xs) (auto split: if_splits)

lemma not_truthy_today:
  assumes "timestamps_wf (adherenceLog s)"
  shows "(case find (\<lambda>l. date l = today h) (adherenceLog s) of
            None \<Rightarrow> True | Some l \<Rightarrow> \<not> truthy (taken (morning l)))
         \<longleftrightarrow> takenToday h Morning s = None"
    and "(case find (\<lambda>l. date l = today h) (adherenceLog s) of
            None \<Rightarrow> True | Some l \<Rightarrow> \<not> truthy (taken (evening l)))
         \<longleftrightarrow> takenToday h Evening s = None"
  using assms find_in_set[of "\<lambda>l. date l = today h" "adherenceLog s"]
  by (auto simp: takenToday_def timestamps_wf_def truthy_wf split: option.splits)

lemma sendNotification_fields [simp]:
  "adherenceLog (sendNotification h ty s) = adherenceLog s"
  "stats (sendNotification h ty s) = stats s"
  "ls_data (sendNotification h ty s) = ls_data s"
  "alert (sendNotification h ty s) = alert s"
  "trace (sendNotification h ty s)
     = trace s @ SendNotification ty
         # (if permission h then [ShowNotification (reminderBody ty)] else [])"
  by (simp_all add: sendNotification_def Let_def)

text \<open>
  Claim C8. On a well-formed ledger, one sweep calls \<open>sendNotification\<close> for Morning
  exactly when the clock reads 8:15 and today's morning slot has no timestamp (today
  has no day log, or its slot is null), and for Evening exactly when the clock reads
  20:15 and today's evening slot has none; at most once per dose type, and the ledger and
  stats stay as they were. The notification itself is shown exactly when, besides, the
  permission is granted.
\<close>

theorem checkReminders_fires_iff:
  assumes "timestamps_wf (adherenceLog s)"
  shows "(SendNotification Morning \<in> set (emitted s (checkReminders h s))
            \<longleftrightarrow> hours h = 8 \<and> minutes h = 15 \<and> takenToday h Morning s = None)
       \<and> (SendNotification Evening \<in> set (emitted s (checkReminders h s))
            \<longleftrightarrow> hours h = 20 \<and> minutes h = 15 \<and> takenToday h Evening s = None)
       \<and> length (filter (\<lambda>e. e = SendNotification ty) (emitted s (checkReminders h s))) \<le> 1
       \<and> (ShowNotification (reminderBody ty) \<in> set (emitted s (checkReminders h s))
            \<longleftrightarrow> permission h \<and> SendNotification ty \<in> set (emitted s (checkReminders h s)))
       \<and> adherenceLog (checkReminders h s) = adherenceLog s
       \<and> stats (checkReminders h s) = stats s"
  using not_truthy_today[OF assms, of h]
  by (cases ty) (auto simp add: checkReminders_def Let_def emitted_def reminderBody_def)

theorem checkReminders_fires_iff_witness:
  "timestamps_wf (adherenceLog (exSession [exDay ''2024-03-20'' None (Some ''20:05'')]))
   \<and> SendNotification Morning
       \<in> set (emitted (exSession [exDay ''2024-03-20'' None (Some ''20:05'')])
                (checkReminders (exHost 8 15) (exSession [exDay ''2024-03-20'' None (Some ''20:05'')])))
   \<and> SendNotification Evening
       \<notin> set (emitted (exSession [exDay ''2024-03-20'' None (Some ''20:05'')])
                (checkReminders (exHost 20 15) (exSession [exDay ''2024-03-20'' None (Some ''20:05'')])))
   \<and> SendNotification Morning
       \<notin> set (emitted (exSession [exDay ''2024-03-20'' None (Some ''20:05'')])
                (checkReminders (exHost 8 16) (exSession [exDay ''2024-03-20'' None (Some ''20:05'')])))"
proof -
  have w: "timestamps_wf (adherenceLog (exSession [exDay ''2024-03-20'' None (Some ''20:05'')]))"
    by (simp add: timestamps_wf_def exSession_def exDay_def)
  have t: "takenToday (exHost 8 15) Morning (exSession [exDay ''2024-03-20'' None (Some ''20:05'')]) = None"
          "takenToday (exHost 20 15) Evening (exSession [exDay ''2024-03-20'' None (Some ''20:05'')]) \<noteq> None"
    by (simp_all add: takenToday_def exHost_def exSession_def exDay_def)
  have h: "hours (exHost 8 15) = 8" "minutes (exHost 8 15) = 15" "minutes (exHost 8 16) \<noteq> 15"
    by (simp_all add: exHost_def)
  from checkReminders_fires_iff[OF w, of "exHost 8 15" Morning]
       checkReminders_fires_iff[OF w, of "exHost 20 15" Morning]
       checkReminders_fires_iff[OF w, of "exHost 8 16" Morning]
  show ?thesis using w t h by blast
qed

lemma generateMockAdherence_unfold:
  "generateMockAdherence h = map (mockDay h) [7, 6, 5, 4, 3, 2, 1]"
  by (simp add: generateMockAdherence_def eval_nat_numeral)

lemma timestamps_wf_mock: "timestamps_wf (generateMockAdherence h)"
  by (simp add: timestamps_wf_def generateMockAdherence_unfold mockDay_def)

text \<open>
  Claim C10. With no stored adherence document, loading sets the ledger to the generated
  seven-day history (not the empty ledger) and the stats to currentStreak 5,
  totalPillsTaken 47 and totalPillsScheduled 50 (not zero), and stores this snapshot
  under the adherence key at once.
\<close>

theorem loadLocalData_demo:
  assumes "ls_data s = None"
  shows "adherenceLog (loadLocalData h s) = generateMockAdherence h
       \<and> length (adherenceLog (loadLocalData h s)) = 7
       \<and> map date (adherenceLog (loadLocalData h s)) = map (daysAgo h) [7, 6, 5, 4, 3, 2, 1]
       \<and> currentStreak (stats (loadLocalData h s)) = 5
       \<and> totalPillsTaken (stats (loadLocalData h s)) = 47
       \<and> totalPillsScheduled (stats (loadLocalData h s)) = 50
       \<and> ls_data (loadLocalData h s)
           = Some \<lparr>p_adherenceLog = generateMockAdherence h, p_currentStreak = 5,
                   p_totalPillsTaken = 47, p_totalPillsScheduled = 50\<rparr>
       \<and> Persist \<lparr>p_adherenceLog = generateMockAdherence h, p_currentStreak = 5,
                   p_totalPillsTaken = 47, p_totalPillsScheduled = 50\<rparr>
           \<in> set (emitted s (loadLocalData h s))
       \<and> adherenceLog (loadLocalData h s) \<noteq> []"
  using assms
  by (simp add: loadLocalData_def Let_def emitted_def generateMockAdherence_unfold mockDay_def)

theorem loadLocalData_demo_witness:
  "ls_data (initialSession None None) = None
   \<and> adherenceLog (loadLocalData (exHost 9 0) (initialSession None None))
       = [exDay ''2024-03-13'' (Some ''08:15'') (Some ''20:30''),
          exDay ''2024-03-14'' None (Some ''20:30''),
          exDay ''2024-03-15'' (Some ''08:15'') (Some ''20:30''),
          exDay ''2024-03-16'' (Some ''08:15'') None,
          exDay ''2024-03-17'' None (Some ''20:30''),
          exDay ''2024-03-18'' (Some ''08:15'') (Some ''20:30''),
          exDay ''2024-03-19'' (Some ''08:15'') (Some ''20:30'')]
   \<and> currentStreak (stats (loadLocalData (exHost 9 0) (initialSession None None))) = 5
   \<and> totalPillsTaken (stats (loadLocalData (exHost 9 0) (initialSession None None))) = 47
   \<and> totalPillsScheduled (stats (loadLocalData (exHost 9 0) (initialSession None None))) = 50
   \<and> ls_data (loadLocalData (exHost 9 0) (initialSession None None)) \<noteq> None"
proof -
  have n: "ls_data (initialSession None None) = None" by (simp add: initialSession_def)
  have m: "generateMockAdherence (exHost 9 0)
       = [exDay ''2024-03-13'' (Some ''08:15'') (Some ''20:30''),
          exDay ''2024-03-14'' None (Some ''20:30''),
          exDay ''2024-03-15'' (Some ''08:15'') (Some ''20:30''),
          exDay ''2024-03-16'' (Some ''08:15'') None,
          exDay ''2024-03-17'' None (Some ''20:30''),
          exDay ''2024-03-18'' (Some ''08:15'') (Some ''20:30''),
          exDay ''2024-03-19'' (Some ''08:15'') (Some ''20:30'')]"
    by (simp add: generateMockAdherence_unfold mockDay_def exHost_def exDay_def twoDigits_def
          digitChar_def)
  from loadLocalData_demo[OF n, of "exHost 9 0"]
  show ?thesis using n m by simp
qed

text \<open>
  Claim C1, as the code has it. A confirmed reset removes the adherence document and
  leaves the classifier URL key as it was; the restarted session finds no document, so
  it starts from the generated history with stats 5, 47 and 50 and stores that snapshot
  again. A declined reset changes nothing.
\<close>

theorem clearData_reset:
  "ls_data (removeData s) = None
   \<and> ls_model_url (removeData s) = ls_model_url s
   \<and> clearData True h s = reload h (removeData s)
   \<and> ls_model_url (clearData True h s) = ls_model_url s
   \<and> adherenceLog (clearData True h s) = generateMockAdherence h
   \<and> currentStreak (stats (clearData True h s)) = 5
   \<and> totalPillsTaken (stats (clearData True h s)) = 47
   \<and> totalPillsScheduled (stats (clearData True h s)) = 50
   \<and> ls_data (clearData True h s)
       = Some \<lparr>p_adherenceLog = generateMockAdherence h, p_currentStreak = 5,
               p_totalPillsTaken = 47, p_totalPillsScheduled = 50\<rparr>
   \<and> clearData False h s = s"
  by (simp add: clearData_def removeData_def reload_def initializeApp_def initialSession_def
        loadLocalData_def Let_def)

theorem clearData_reset_witness:
  "ls_model_url (clearData True (exHost 9 0) (exSession [])) = Some ''https://example.org/model/''
   \<and> totalPillsTaken (stats (clearData True (exHost 9 0) (exSession []))) = 47
   \<and> clearData False (exHost 9 0) (exSession []) = exSession []"
proof -
  have u: "ls_model_url (exSession []) = Some ''https://example.org/model/''"
    by (simp add: exSession_def)
  from clearData_reset[of "exSession []" "exHost 9 0"]
  have a: "ls_model_url (clearData True (exHost 9 0) (exSession [])) = ls_model_url (exSession [])"
    and b: "totalPillsTaken (stats (clearData True (exHost 9 0) (exSession []))) = 47"
    and c: "clearData False (exHost 9 0) (exSession []) = exSession []"
    by blast+
  show ?thesis using a b c u by simp
qed

theorem clearData_counterexample:
  "ls_model_url (exSession []) = Some ''https://example.org/model/''
   \<and> ls_model_url (removeData (exSession [])) = Some ''https://example.org/model/''
   \<and> ls_model_url (clearData True (exHost 9 0) (exSession [])) = Some ''https://example.org/model/''
   \<and> ls_data (clearData True (exHost 9 0) (exSession [])) \<noteq> None
   \<and> currentStreak (stats (clearData True (exHost 9 0) (exSession []))) = 5
   \<and> totalPillsTaken (stats (clearData True (exHost 9 0) (exSession []))) = 47
   \<and> totalPillsScheduled (stats (clearData True (exHost 9 0) (exSession []))) = 50"
  by (simp add: clearData_def removeData_def reload_def initializeApp_def initialSession_def
        loadLocalData_def Let_def exSession_def)

text \<open>
  When the second call reads the session the first one left (the test buttons: each
  click runs the handler of the latest render), a valid on-schedule label is accepted
  once and then found already taken, the first timestamp stays and the counter goes up
  by one.
\<close>

lemma handleDetection_twice_sequential:
  assumes v1: "isValid (checkPillValidity (hours h1) label)"
      and v2: "isValid (checkPillValidity (hours h2) label)"
      and ty: "vtype (checkPillValidity (hours h1) label) = Some ty"
      and day: "today h2 = today h1"
      and tt: "takenTime h1 \<noteq> []"
      and un: "\<not> truthy (takenToday h1 ty s)"
  shows "fst (handleDetection h1 label c s) = Accepted"
    and "fst (handleDetection h2 label c' (snd (handleDetection h1 label c s))) = AlreadyTaken"
    and "takenToday h2 ty (snd (handleDetection h2 label c' (snd (handleDetection h1 label c s))))
           = Some (takenTime h1)"
    and "totalPillsTaken (stats (snd (handleDetection h2 label c' (snd (handleDetection h1 label c s)))))
           = totalPillsTaken (stats s) + 1"
proof -
  let ?s0 = "setAlert (infoAlert label) s"
  let ?s1 = "snd (handleDetection h1 label c s)"
  have un0: "\<not> truthy (takenToday h1 ty ?s0)" using un by simp
  have e1: "handleDetection h1 label c s =
           (fst (processSuccess h1 label ty ?s0),
            emit (SetTimeout ClearInfoAlert 3000) (snd (processSuccess h1 label ty ?s0)))"
    by (rule handleDetection_valid[OF v1 ty])
  show "fst (handleDetection h1 label c s) = Accepted"
    unfolding e1 using processSuccess_accept(1)[OF un0] by simp
  have t1: "takenToday h1 ty ?s1 = Some (takenTime h1)"
    unfolding e1 using processSuccess_accept(4)[OF un0] by simp
  have n1: "totalPillsTaken (stats ?s1) = totalPillsTaken (stats s) + 1"
    unfolding e1 using processSuccess_accept(3)[OF un0] by simp
  have same: "takenToday h2 ty ?s1 = takenToday h1 ty ?s1"
    by (simp add: takenToday_def day)
  have ty2: "vtype (checkPillValidity (hours h2) label) = Some ty"
    using v1 v2 ty by (auto simp: checkPillValidity_def Let_def split: if_splits)
  have tr: "truthy (takenToday h2 ty ?s1)" using same t1 tt by simp
  have e2: "handleDetection h2 label c' ?s1
        = (AlreadyTaken, emit (SetTimeout ClearInfoAlert 3000) (setAlert (infoAlert label) ?s1))"
    by (rule already_taken_in_window[OF v2 ty2 tr])
  show "fst (handleDetection h2 label c' ?s1) = AlreadyTaken" unfolding e2 by simp
  show "takenToday h2 ty (snd (handleDetection h2 label c' ?s1)) = Some (takenTime h1)"
    unfolding e2 using same t1 by simp
  show "totalPillsTaken (stats (snd (handleDetection h2 label c' ?s1))) = totalPillsTaken (stats s) + 1"
    unfolding e2 using n1 by simp
qed

text \<open>
  Claim C3, on the sampling timer. Detection is started on a ledger with no entry for
  today; the classifier reports \<open>pill_morning\<close> at 0.9 on the tick of 08:00 and again
  on the tick of 08:01. Both ticks are the callback \<open>startDetection\<close> registered, and
  both read the ledger of the render it was registered in. The second tick is therefore
  accepted again: it plays the sound, shows the Success alert and sets a ledger whose
  morning timestamp for today is 08:01, not the 08:00 of the first tick.
\<close>

theorem sampling_timer_accepts_again:
  "(case snd (startDetection (exSession [exDay ''2024-03-19'' (Some ''08:15'') (Some ''20:30'')])) of
      None \<Rightarrow> False
    | Some tick \<Rightarrow>
        takenToday (exHost 8 0) Morning
           (tick (exHost 8 0) [\<lparr>className = ''pill_morning'', probability = 0.9\<rparr>])
          = Some ''08:00''
        \<and> takenToday (exHost 8 1) Morning
           (tick (exHost 8 1) [\<lparr>className = ''pill_morning'', probability = 0.9\<rparr>])
          = Some ''08:01''
        \<and> alert (tick (exHost 8 1) [\<lparr>className = ''pill_morning'', probability = 0.9\<rparr>])
          = Some (successAlert ''pill_morning'')
        \<and> PlaySuccessSound
          \<in> set (trace (tick (exHost 8 1) [\<lparr>className = ''pill_morning'', probability = 0.9\<rparr>])))"
  by code_simp

end
